theory Spec2Isabelle
  imports Complex_Main "HOL-Library.Sublist"
begin

section \<open>The kernel session of pykernel\_mcp\<close>

text \<open>
  The development embeds \<^verbatim>\<open>src/pykernel_mcp/server.py\<close> (the packaged server) and the
  older stand-alone script \<^verbatim>\<open>pykernel_mcp.py\<close>. Definitions without a suffix follow
  \<^verbatim>\<open>server.py\<close>; definitions ending in \<^verbatim>\<open>_script\<close> follow the stand-alone script where
  the two differ.

  Everything outside the two files (the Jupyter kernel manager, its client, the clock,
  \<^verbatim>\<open>uuid.uuid4\<close>, \<^verbatim>\<open>asyncio.wait_for\<close>) is an input of the model: each function takes
  a record holding what those calls answer, and returns the list of calls it made on
  the kernel manager and its client, in order.
\<close>

subsection \<open>Exceptions and external calls\<close>

text \<open>
  \<^verbatim>\<open>TimeoutError\<close> is \<^verbatim>\<open>asyncio.TimeoutError\<close>; \<^verbatim>\<open>KeyError\<close> is what a subscript on a
  dictionary raises for a missing key; \<^verbatim>\<open>AttributeError\<close> is what a method call on
  \<^verbatim>\<open>None\<close> raises. \<^verbatim>\<open>External\<close> stands for any other exception that a library call
  raises (a failed spawn, a failed handshake, a closed channel), named by a label.
\<close>

datatype exn = TimeoutError | KeyError string | AttributeError string | External string

datatype ext_call =
    StartKernel nat
  | StartChannels nat
  | WaitForReady nat
  | Execute nat string
  | ShutdownKernel nat

subsection \<open>\<^verbatim>\<open>KernelState\<close>\<close>

text \<open>
  \<^verbatim>\<open>km\<close> is the \<^verbatim>\<open>AsyncKernelManager\<close> object, identified by a handle; \<^verbatim>\<open>kc\<close> is the
  client \<^verbatim>\<open>km.client()\<close>, identified by the handle of the manager it belongs to.
\<close>

record KernelState =
  km :: "nat option"
  kc :: "nat option"
  kernel_id :: string
  start_time :: real
  session_api_url :: "string option"
  session_id :: "string option"

definition KernelState_init :: "string \<Rightarrow> real \<Rightarrow> KernelState" where
  "KernelState_init uuid t =
     \<lparr>km = None, kc = None, kernel_id = uuid, start_time = t,
      session_api_url = None, session_id = None\<rparr>"

definition get_uptime :: "real \<Rightarrow> KernelState \<Rightarrow> real" where
  "get_uptime t s = t - start_time s"

definition IMPORTS :: string where
  "IMPORTS = ''import numpy as np\<newline>import pandas as pd\<newline>import matplotlib.pyplot as plt\<newline>''"

text \<open>
  What the outside world answers during one \<^verbatim>\<open>ensure_started\<close>: the handle of the
  manager object that \<^verbatim>\<open>AsyncKernelManager()\<close> creates, the exception (if any) raised
  by \<^verbatim>\<open>start_kernel\<close> and by \<^verbatim>\<open>wait_for_ready\<close>, the value of \<^verbatim>\<open>uuid.uuid4()\<close> and of
  \<^verbatim>\<open>time.time()\<close>.
\<close>

record start_env =
  new_km :: nat
  start_kernel_raises :: "exn option"
  wait_for_ready_raises :: "exn option"
  new_uuid :: string
  now :: real

text \<open>
  \<^verbatim>\<open>ensure_started\<close> of \<^verbatim>\<open>server.py\<close>. The assignment to \<^verbatim>\<open>self.km\<close> comes before
  \<^verbatim>\<open>start_kernel\<close> is awaited, and the assignment to \<^verbatim>\<open>self.kc\<close> before
  \<^verbatim>\<open>wait_for_ready\<close>, so the state returned with an exception already holds them.
\<close>

definition ensure_started ::
  "start_env \<Rightarrow> KernelState \<Rightarrow> (exn + unit) \<times> KernelState \<times> ext_call list" where
  "ensure_started env s =
     (case km s of
        Some _ \<Rightarrow> (Inr (), s, [])
      | None \<Rightarrow>
          let k = new_km env;
              s1 = s\<lparr>km := Some k\<rparr>
          in (case start_kernel_raises env of
                Some e \<Rightarrow> (Inl e, s1, [StartKernel k])
              | None \<Rightarrow>
                  let s2 = s1\<lparr>kc := Some k\<rparr>
                  in (case wait_for_ready_raises env of
                        Some e \<Rightarrow> (Inl e, s2, [StartKernel k, StartChannels k, WaitForReady k])
                      | None \<Rightarrow>
                          (Inr (),
                           s2\<lparr>kernel_id := new_uuid env, start_time := now env\<rparr>,
                           [StartKernel k, StartChannels k, WaitForReady k,
                            Execute k IMPORTS, Execute k ''%matplotlib inline'']))))"

text \<open>\<^verbatim>\<open>ensure_started\<close> of the stand-alone script: the same, without the two priming requests.\<close>

definition ensure_started_script ::
  "start_env \<Rightarrow> KernelState \<Rightarrow> (exn + unit) \<times> KernelState \<times> ext_call list" where
  "ensure_started_script env s =
     (case km s of
        Some _ \<Rightarrow> (Inr (), s, [])
      | None \<Rightarrow>
          let k = new_km env;
              s1 = s\<lparr>km := Some k\<rparr>
          in (case start_kernel_raises env of
                Some e \<Rightarrow> (Inl e, s1, [StartKernel k])
              | None \<Rightarrow>
                  let s2 = s1\<lparr>kc := Some k\<rparr>
                  in (case wait_for_ready_raises env of
                        Some e \<Rightarrow> (Inl e, s2, [StartKernel k, StartChannels k, WaitForReady k])
                      | None \<Rightarrow>
                          (Inr (),
                           s2\<lparr>kernel_id := new_uuid env, start_time := now env\<rparr>,
                           [StartKernel k, StartChannels k, WaitForReady k]))))"

subsection \<open>Messages of the iopub channel\<close>

text \<open>
  A message is the nested dictionary that \<^verbatim>\<open>get_iopub_msg\<close> returns. Of
  \<^verbatim>\<open>msg["parent_header"]\<close> the code reads \<^verbatim>\<open>.get("msg_id")\<close>, which may be absent; of
  \<^verbatim>\<open>msg["header"]\<close> it reads \<^verbatim>\<open>["msg_type"]\<close>, which the client library always fills
  in; of \<^verbatim>\<open>msg["content"]\<close> it reads the keys below by subscript, so a missing key
  raises \<^verbatim>\<open>KeyError\<close>. \<^verbatim>\<open>content["data"]\<close> is itself a dictionary from media types to
  payloads.
\<close>

record content =
  c_text :: "string option"
  c_data :: "(string \<rightharpoonup> string) option"
  c_traceback :: "string list option"
  c_execution_state :: "string option"

record msg =
  parent_msg_id :: "string option"
  msg_type :: string
  content :: content

text \<open>
  The channel is the script of what will arrive: each entry is the time in seconds
  from the moment the loop starts to wait until \<^verbatim>\<open>get_iopub_msg\<close> completes, and what
  it completes with, a message or an exception. The script is finite; when it is
  used up the model does not know what comes next and answers \<^verbatim>\<open>None\<close>.
\<close>

datatype arrival = Message msg | Broken exn

type_synonym channel = "(real \<times> arrival) list"

text \<open>
  \<^verbatim>\<open>asyncio.wait_for(state.kc.get_iopub_msg(), timeout=t)\<close>: what arrives before \<^verbatim>\<open>t\<close>
  seconds have passed is delivered (or raised); otherwise \<^verbatim>\<open>TimeoutError\<close> is raised
  and the arrival stays pending, \<^verbatim>\<open>t\<close> seconds closer.
\<close>

fun wait_for :: "real \<Rightarrow> channel \<Rightarrow> ((exn + msg) \<times> channel) option" where
  "wait_for t [] = None"
| "wait_for t ((d, x) # ch) =
     Some (if d < t
           then (case x of Message m \<Rightarrow> (Inr m, ch) | Broken e \<Rightarrow> (Inl e, ch))
           else (Inl TimeoutError, (d - t, x) # ch))"

subsection \<open>The receive loop of \<^verbatim>\<open>execute_python\<close>\<close>

record acc =
  outputs :: "string list"
  errors :: "string list"
  images :: "string list"

definition acc_init :: acc where
  "acc_init = \<lparr>outputs = [], errors = [], images = []\<rparr>"

datatype ctl = Next | Break

definition timeout_notice :: string where
  "timeout_notice = ''Execution timed out after 30 seconds''"

text \<open>
  The body of the \<^verbatim>\<open>try\<close> block after a message has been received (\<^verbatim>\<open>server.py\<close>):
  the tag filter, then the dispatch on \<^verbatim>\<open>msg_type\<close>. \<^verbatim>\<open>Next\<close> is the next iteration
  (by \<^verbatim>\<open>continue\<close> or by falling through), \<^verbatim>\<open>Break\<close> the \<^verbatim>\<open>break\<close>.
\<close>

definition handle_msg :: "string \<Rightarrow> msg \<Rightarrow> acc \<Rightarrow> exn + (ctl \<times> acc)" where
  "handle_msg msg_id m a =
     (if parent_msg_id m \<noteq> Some msg_id then Inr (Next, a)
      else let c = content m; t = msg_type m in
        if t = ''stream'' then
          (case c_text c of
             None \<Rightarrow> Inl (KeyError ''text'')
           | Some s \<Rightarrow> Inr (Next, a\<lparr>outputs := outputs a @ [s]\<rparr>))
        else if t = ''display_data'' then
          (case c_data c of
             None \<Rightarrow> Inl (KeyError ''data'')
           | Some dt \<Rightarrow>
               (case dt ''image/png'' of
                  Some p \<Rightarrow> Inr (Next, a\<lparr>images := images a @ [p]\<rparr>)
                | None \<Rightarrow> Inr (Next, a)))
        else if t = ''execute_result'' then
          (case c_data c of
             None \<Rightarrow> Inl (KeyError ''data'')
           | Some dt \<Rightarrow>
               Inr (Next, a\<lparr>outputs := outputs a @
                      [case dt ''text/plain'' of Some s \<Rightarrow> s | None \<Rightarrow> '''']\<rparr>))
        else if t = ''error'' then
          (case c_traceback c of
             None \<Rightarrow> Inl (KeyError ''traceback'')
           | Some tb \<Rightarrow> Inr (Next, a\<lparr>errors := errors a @ tb\<rparr>))
        else if t = ''status'' then
          (case c_execution_state c of
             None \<Rightarrow> Inl (KeyError ''execution_state'')
           | Some st \<Rightarrow> if st = ''idle'' then Inr (Break, a) else Inr (Next, a))
        else Inr (Next, a))"

text \<open>The same body in the stand-alone script, which has no \<^verbatim>\<open>display_data\<close> branch.\<close>

definition handle_msg_script :: "string \<Rightarrow> msg \<Rightarrow> acc \<Rightarrow> exn + (ctl \<times> acc)" where
  "handle_msg_script msg_id m a =
     (if parent_msg_id m \<noteq> Some msg_id then Inr (Next, a)
      else let c = content m; t = msg_type m in
        if t = ''stream'' then
          (case c_text c of
             None \<Rightarrow> Inl (KeyError ''text'')
           | Some s \<Rightarrow> Inr (Next, a\<lparr>outputs := outputs a @ [s]\<rparr>))
        else if t = ''execute_result'' then
          (case c_data c of
             None \<Rightarrow> Inl (KeyError ''data'')
           | Some dt \<Rightarrow>
               Inr (Next, a\<lparr>outputs := outputs a @
                      [case dt ''text/plain'' of Some s \<Rightarrow> s | None \<Rightarrow> '''']\<rparr>))
        else if t = ''error'' then
          (case c_traceback c of
             None \<Rightarrow> Inl (KeyError ''traceback'')
           | Some tb \<Rightarrow> Inr (Next, a\<lparr>errors := errors a @ tb\<rparr>))
        else if t = ''status'' then
          (case c_execution_state c of
             None \<Rightarrow> Inl (KeyError ''execution_state'')
           | Some st \<Rightarrow> if st = ''idle'' then Inr (Break, a) else Inr (Next, a))
        else Inr (Next, a))"

text \<open>
  The \<^verbatim>\<open>while True\<close> loop, for either body \<^verbatim>\<open>h\<close>. Only \<^verbatim>\<open>asyncio.TimeoutError\<close> is
  caught; every other exception, from the receive or from the body, leaves the loop.
  The result is \<^verbatim>\<open>None\<close> when the script of arrivals ends while the loop still waits.
\<close>

function receive_loop ::
  "(string \<Rightarrow> msg \<Rightarrow> acc \<Rightarrow> exn + (ctl \<times> acc)) \<Rightarrow> string \<Rightarrow> channel \<Rightarrow> acc
     \<Rightarrow> ((exn + acc) \<times> channel) option" where
  "receive_loop h msg_id ch a =
     (case wait_for 30 ch of
        None \<Rightarrow> None
      | Some (Inl e, ch') \<Rightarrow>
          if e = TimeoutError
          then Some (Inr (a\<lparr>errors := errors a @ [timeout_notice]\<rparr>), ch')
          else Some (Inl e, ch')
      | Some (Inr m, ch') \<Rightarrow>
          (case h msg_id m a of
             Inl e \<Rightarrow> Some (Inl e, ch')
           | Inr (Break, a') \<Rightarrow> Some (Inr a', ch')
           | Inr (Next, a') \<Rightarrow> receive_loop h msg_id ch' a'))"
  by pat_completeness auto
termination
proof (relation "measure (\<lambda>(h, msg_id, ch, a). length ch)")
  show "wf (measure (\<lambda>(h, msg_id, ch, a). length ch))"
    by simp
next
  fix h :: "string \<Rightarrow> msg \<Rightarrow> acc \<Rightarrow> exn + (ctl \<times> acc)"
  fix msg_id :: string and ch ch' :: channel and a a' :: acc
  fix r :: "(exn + msg) \<times> channel" and o1 :: "exn + msg" and m :: msg
  fix r2 :: "ctl \<times> acc" and c :: ctl
  assume w: "wait_for 30 ch = Some r" and r: "(o1, ch') = r" and o1: "o1 = Inr m"
  from w r o1 have "length ch' < length ch"
    by (cases "(30::real, ch)" rule: wait_for.cases) (auto split: if_splits arrival.splits)
  then show "((h, msg_id, ch', a'), (h, msg_id, ch, a)) \<in> measure (\<lambda>(h, msg_id, ch, a). length ch)"
    by simp
qed

declare receive_loop.simps [simp del]

subsection \<open>The result parts\<close>

datatype resource =
    BlobResource string string string
  | TextResource string string string

datatype part = TextContent string | EmbeddedResource resource

fun join :: "string \<Rightarrow> string list \<Rightarrow> string" where
  "join sep [] = []"
| "join sep [x] = x"
| "join sep (x # y # ys) = x @ sep @ join sep (y # ys)"

text \<open>The check mark is the three bytes of its UTF-8 encoding.\<close>

definition success_text :: string where
  "success_text = [CHR 0xE2, CHR 0x9C, CHR 0x93] @ '' Code executed successfully''"

definition success_text_script :: string where
  "success_text_script = [CHR 0xE2, CHR 0x9C, CHR 0x93] @ '' Code executed successfully (no output)''"

text \<open>
  What the outside world answers during one \<^verbatim>\<open>execute_python\<close>: the answers for
  \<^verbatim>\<open>ensure_started\<close>, the \<^verbatim>\<open>msg_id\<close> that \<^verbatim>\<open>kc.execute(code)\<close> returns, the script of
  the iopub channel, \<^verbatim>\<open>time.time()\<close> at \<^verbatim>\<open>get_uptime\<close>, and the successive values of
  \<^verbatim>\<open>uuid.uuid4()\<close> while the parts are built. Two pieces of rendering are parameters
  as well: \<^verbatim>\<open>fmt_1f\<close> is the format \<^verbatim>\<open>{uptime:.1f}\<close>, and \<^verbatim>\<open>html_result\<close> is the HTML
  template, whose style sheets and scripts are read from files outside the source
  (in the script the template is an inline f-string that also shows the kernel id
  and the uptime).
\<close>

record exec_env =
  start :: start_env
  sent_msg_id :: string
  iopub :: channel
  clock :: real
  uuid4 :: "nat \<Rightarrow> string"
  fmt_1f :: "real \<Rightarrow> string"
  html_result :: "string \<Rightarrow> string \<Rightarrow> string \<Rightarrow> string list \<Rightarrow> string"
  html_script :: "string \<Rightarrow> string \<Rightarrow> string \<Rightarrow> string \<Rightarrow> string \<Rightarrow> string"

definition kernel_info :: "exec_env \<Rightarrow> KernelState \<Rightarrow> string" where
  "kernel_info env s =
     ''**Kernel Info:** ID: `'' @ take 8 (kernel_id s) @ ''...` | Uptime: `''
       @ fmt_1f env (get_uptime (clock env) s) @ ''s`''"

definition executed_text :: "string \<Rightarrow> string" where
  "executed_text code = ''**Executed:**\<newline>```python\<newline>'' @ code @ ''\<newline>```''"

definition output_part :: "string list \<Rightarrow> string" where
  "output_part outs = ''**Output:**\<newline>```\<newline>'' @ join ''\<newline>'' outs @ ''\<newline>```''"

definition errors_part :: "string list \<Rightarrow> string" where
  "errors_part errs = ''**Errors:**\<newline>```python\<newline>'' @ join ''\<newline>'' errs @ ''\<newline>```''"

definition image_part :: "exec_env \<Rightarrow> nat \<times> string \<Rightarrow> part" where
  "image_part env = (\<lambda>(i, img_data).
     EmbeddedResource
       (BlobResource (''image://pykernel/'' @ uuid4 env i @ ''.png'') ''image/png'' img_data))"

text \<open>Lines 209 to 268 of \<^verbatim>\<open>server.py\<close>: the parts built from the three lists.\<close>

definition result_parts :: "exec_env \<Rightarrow> string \<Rightarrow> KernelState \<Rightarrow> acc \<Rightarrow> part list" where
  "result_parts env code s a =
     [TextContent (kernel_info env s), TextContent (executed_text code)]
     @ map (image_part env) (enumerate 0 (images a))
     @ (if outputs a \<noteq> [] then [TextContent (output_part (outputs a))] else [])
     @ (if errors a \<noteq> [] then [TextContent (errors_part (errors a))] else [])
     @ (if outputs a = [] \<and> errors a = [] \<and> images a = []
        then [TextContent success_text] else [])
     @ [EmbeddedResource
          (TextResource (''ui://pykernel_mcp/result-'' @ uuid4 env (length (images a)))
             ''text/html''
             (html_result env code
                (if errors a \<noteq> [] then join ''\<newline>'' (errors a) else [])
                (if outputs a \<noteq> [] then join ''\<newline>'' (outputs a) else [])
                (images a)))]"

text \<open>Lines 102 to 182 of the script: no images, and another text for the empty case.\<close>

definition result_parts_script :: "exec_env \<Rightarrow> string \<Rightarrow> KernelState \<Rightarrow> acc \<Rightarrow> part list" where
  "result_parts_script env code s a =
     [TextContent (kernel_info env s), TextContent (executed_text code)]
     @ (if outputs a \<noteq> [] then [TextContent (output_part (outputs a))] else [])
     @ (if errors a \<noteq> [] then [TextContent (errors_part (errors a))] else [])
     @ (if outputs a = [] \<and> errors a = [] then [TextContent success_text_script] else [])
     @ [EmbeddedResource
          (TextResource (''ui://python-kernel/result-'' @ uuid4 env 0)
             ''text/html''
             (html_script env (take 8 (kernel_id s)) (fmt_1f env (get_uptime (clock env) s)) code
                (if outputs a \<noteq> [] then join ''\<newline>'' (outputs a) else [])
                (if errors a \<noteq> [] then join ''\<newline>'' (errors a) else [])))]"

subsection \<open>\<^verbatim>\<open>execute_python\<close>, \<^verbatim>\<open>install_package\<close>, \<^verbatim>\<open>restart_kernel\<close>\<close>

text \<open>
  The result of \<^verbatim>\<open>execute_python\<close> is the returned list of parts or the exception that
  leaves the function, with the state of the session, what is left of the channel
  script and the calls made on the kernel. It is \<^verbatim>\<open>None\<close> when the channel script ends
  while the loop still waits.
\<close>

definition execute_python ::
  "exec_env \<Rightarrow> string \<Rightarrow> KernelState
     \<Rightarrow> ((exn + part list) \<times> KernelState \<times> channel \<times> ext_call list) option" where
  "execute_python env code s =
     (case ensure_started (start env) s of
        (Inl e, s', calls) \<Rightarrow> Some (Inl e, s', iopub env, calls)
      | (Inr _, s', calls) \<Rightarrow>
          (case kc s' of
             None \<Rightarrow> Some (Inl (AttributeError ''execute''), s', iopub env, calls)
           | Some c \<Rightarrow>
               (case receive_loop handle_msg (sent_msg_id env) (iopub env) acc_init of
                  None \<Rightarrow> None
                | Some (Inl e, ch') \<Rightarrow> Some (Inl e, s', ch', calls @ [Execute c code])
                | Some (Inr a, ch') \<Rightarrow>
                    Some (Inr (result_parts env code s' a), s', ch', calls @ [Execute c code]))))"

definition execute_python_script ::
  "exec_env \<Rightarrow> string \<Rightarrow> KernelState
     \<Rightarrow> ((exn + part list) \<times> KernelState \<times> channel \<times> ext_call list) option" where
  "execute_python_script env code s =
     (case ensure_started_script (start env) s of
        (Inl e, s', calls) \<Rightarrow> Some (Inl e, s', iopub env, calls)
      | (Inr _, s', calls) \<Rightarrow>
          (case kc s' of
             None \<Rightarrow> Some (Inl (AttributeError ''execute''), s', iopub env, calls)
           | Some c \<Rightarrow>
               (case receive_loop handle_msg_script (sent_msg_id env) (iopub env) acc_init of
                  None \<Rightarrow> None
                | Some (Inl e, ch') \<Rightarrow> Some (Inl e, s', ch', calls @ [Execute c code])
                | Some (Inr a, ch') \<Rightarrow>
                    Some (Inr (result_parts_script env code s' a), s', ch',
                          calls @ [Execute c code]))))"

definition install_package ::
  "exec_env \<Rightarrow> string \<Rightarrow> KernelState
     \<Rightarrow> ((exn + part list) \<times> KernelState \<times> channel \<times> ext_call list) option" where
  "install_package env package s = execute_python env (''%pip install '' @ package) s"

text \<open>
  What the outside world answers during one \<^verbatim>\<open>restart_kernel\<close>: the exception (if any)
  raised by \<^verbatim>\<open>shutdown_kernel\<close>, and the answers for \<^verbatim>\<open>ensure_started\<close>.
\<close>

record restart_env =
  shutdown_kernel_raises :: "exn option"
  restart_start :: start_env

definition restart_message :: "KernelState \<Rightarrow> string" where
  "restart_message s = ''Kernel restarted. New ID: '' @ kernel_id s"

definition restart_kernel ::
  "restart_env \<Rightarrow> KernelState \<Rightarrow> (exn + string) \<times> KernelState \<times> ext_call list" where
  "restart_kernel env s =
     (case (case km s of
              Some k \<Rightarrow>
                (case shutdown_kernel_raises env of
                   Some e \<Rightarrow> (Inl e, s, [ShutdownKernel k])
                 | None \<Rightarrow> (Inr (), s\<lparr>km := None, kc := None\<rparr>, [ShutdownKernel k]))
            | None \<Rightarrow> (Inr (), s, [])) of
        (Inl e, s1, calls) \<Rightarrow> (Inl e, s1, calls)
      | (Inr _, s1, calls) \<Rightarrow>
          (case ensure_started (restart_start env) s1 of
             (Inl e, s2, calls2) \<Rightarrow> (Inl e, s2, calls @ calls2)
           | (Inr _, s2, calls2) \<Rightarrow> (Inr (restart_message s2), s2, calls @ calls2)))"

definition restart_kernel_script ::
  "restart_env \<Rightarrow> KernelState \<Rightarrow> (exn + string) \<times> KernelState \<times> ext_call list" where
  "restart_kernel_script env s =
     (case (case km s of
              Some k \<Rightarrow>
                (case shutdown_kernel_raises env of
                   Some e \<Rightarrow> (Inl e, s, [ShutdownKernel k])
                 | None \<Rightarrow> (Inr (), s\<lparr>km := None, kc := None\<rparr>, [ShutdownKernel k]))
            | None \<Rightarrow> (Inr (), s, [])) of
        (Inl e, s1, calls) \<Rightarrow> (Inl e, s1, calls)
      | (Inr _, s1, calls) \<Rightarrow>
          (case ensure_started_script (restart_start env) s1 of
             (Inl e, s2, calls2) \<Rightarrow> (Inl e, s2, calls @ calls2)
           | (Inr _, s2, calls2) \<Rightarrow> (Inr (restart_message s2), s2, calls @ calls2)))"

subsection \<open>Concrete sessions and messages\<close>

text \<open>The inputs at which the theorems below are instantiated.\<close>

definition ex_content :: content where
  "ex_content = \<lparr>c_text = None, c_data = None, c_traceback = None, c_execution_state = None\<rparr>"

definition ex_status :: "string \<Rightarrow> string \<Rightarrow> msg" where
  "ex_status mid st =
     \<lparr>parent_msg_id = Some mid, msg_type = ''status'',
      content = ex_content\<lparr>c_execution_state := Some st\<rparr>\<rparr>"

definition ex_stream :: "string \<Rightarrow> string \<Rightarrow> msg" where
  "ex_stream mid t =
     \<lparr>parent_msg_id = Some mid, msg_type = ''stream'', content = ex_content\<lparr>c_text := Some t\<rparr>\<rparr>"

definition ex_error :: "string \<Rightarrow> string list \<Rightarrow> msg" where
  "ex_error mid tb =
     \<lparr>parent_msg_id = Some mid, msg_type = ''error'', content = ex_content\<lparr>c_traceback := Some tb\<rparr>\<rparr>"



definition ex_fresh :: KernelState where
  "ex_fresh = KernelState_init ''0f8fad5b-d9cb-469f-a165-70867728950e'' 0"

definition ex_up :: KernelState where
  "ex_up = \<lparr>km = Some 1, kc = Some 1, kernel_id = ''7c9e6679-7425-40de-944b-e07fc1f90ae7'',
            start_time = 10, session_api_url = None, session_id = None\<rparr>"

definition ex_start :: start_env where
  "ex_start = \<lparr>new_km = 2, start_kernel_raises = None, wait_for_ready_raises = None,
               new_uuid = ''a3bb189e-8bf9-3888-9912-ace4e6543002'', now = 100\<rparr>"

definition ex_env :: "channel \<Rightarrow> exec_env" where
  "ex_env ch =
     \<lparr>start = ex_start, sent_msg_id = ''req-2'', iopub = ch, clock = 25,
      uuid4 = (\<lambda>i. ''uuid''), fmt_1f = (\<lambda>r. ''15.0''),
      html_result = (\<lambda>code error_text output_text imgs. ''<html>''),
      html_script = (\<lambda>kid up code output_text error_text. ''<div>'')\<rparr>"

section \<open>Unfolding the loop\<close>


lemma receive_loop_timeout:
  "30 \<le> d \<Longrightarrow> receive_loop h mid ((d, x) # ch) a =
     Some (Inr (a\<lparr>errors := errors a @ [timeout_notice]\<rparr>), (d - 30, x) # ch)"
  by (simp add: receive_loop.simps)

lemma receive_loop_broken:
  "d < 30 \<Longrightarrow> receive_loop h mid ((d, Broken e) # ch) a =
     (if e = TimeoutError
      then Some (Inr (a\<lparr>errors := errors a @ [timeout_notice]\<rparr>), ch)
      else Some (Inl e, ch))"
  by (simp add: receive_loop.simps)

lemma receive_loop_message:
  "d < 30 \<Longrightarrow> receive_loop h mid ((d, Message m) # ch) a =
     (case h mid m a of
        Inl e \<Rightarrow> Some (Inl e, ch)
      | Inr (Break, a') \<Rightarrow> Some (Inr a', ch)
      | Inr (Next, a') \<Rightarrow> receive_loop h mid ch a')"
  by (simp add: receive_loop.simps [of h mid "(d, Message m) # ch"])

lemma receive_loop_skip:
  "\<forall>(d, x) \<in> set pre. d < 30 \<and> (\<exists>m. x = Message m \<and> h mid m a = Inr (Next, a))
   \<Longrightarrow> receive_loop h mid (pre @ ch) a = receive_loop h mid ch a"
  by (induction pre) (auto simp: receive_loop_message)







lemma execute_python_up:
  "km s = Some k \<Longrightarrow> kc s = Some c \<Longrightarrow>
   execute_python env code s =
     (case receive_loop handle_msg (sent_msg_id env) (iopub env) acc_init of
        None \<Rightarrow> None
      | Some (Inl e, ch') \<Rightarrow> Some (Inl e, s, ch', [Execute c code])
      | Some (Inr a, ch') \<Rightarrow> Some (Inr (result_parts env code s a), s, ch', [Execute c code]))"
  by (simp add: execute_python_def ensure_started_def split: option.splits sum.splits prod.splits)

lemma execute_python_script_up:
  "km s = Some k \<Longrightarrow> kc s = Some c \<Longrightarrow>
   execute_python_script env code s =
     (case receive_loop handle_msg_script (sent_msg_id env) (iopub env) acc_init of
        None \<Rightarrow> None
      | Some (Inl e, ch') \<Rightarrow> Some (Inl e, s, ch', [Execute c code])
      | Some (Inr a, ch') \<Rightarrow>
          Some (Inr (result_parts_script env code s a), s, ch', [Execute c code]))"
  by (simp add: execute_python_script_def ensure_started_script_def
      split: option.splits sum.splits prod.splits)

section \<open>Claims about the life cycle of the worker\<close>

text \<open>
  Claim C9. \<^verbatim>\<open>ensure_started\<close> is idempotent: called while \<^verbatim>\<open>km\<close> is set it makes no call
  on the kernel manager or its client (it spawns nothing) and returns the session
  unchanged, so the worker reference, the client, the kernel id and the start time
  are all what they were. This holds in \<^verbatim>\<open>server.py\<close> and in the script.
\<close>

theorem ensure_started_idempotent:
  assumes "km s \<noteq> None"
  shows "ensure_started env s = (Inr (), s, []) \<and> ensure_started_script env s = (Inr (), s, [])"
  using assms by (auto simp: ensure_started_def ensure_started_script_def)

text \<open>The theorem at a running session.\<close>

theorem ensure_started_idempotent_witness:
  "km ex_up \<noteq> None \<and> ensure_started ex_start ex_up = (Inr (), ex_up, [])
   \<and> ensure_started_script ex_start ex_up = (Inr (), ex_up, [])"
  using ensure_started_idempotent [of ex_up ex_start] by (simp add: ex_up_def)

text \<open>
  Claim C1. The claim asks that a failed spawn or a failed readiness handshake leave
  the session not started, so that the next \<^verbatim>\<open>ensure_started\<close> starts afresh. The code
  assigns \<^verbatim>\<open>self.km\<close> before it awaits \<^verbatim>\<open>start_kernel\<close>, and \<^verbatim>\<open>self.kc\<close> before it awaits
  \<^verbatim>\<open>wait_for_ready\<close>. Evaluated at a fresh session whose \<^verbatim>\<open>start_kernel\<close> raises: the
  exception reaches the caller, but the session keeps the manager; the next
  \<^verbatim>\<open>ensure_started\<close> makes no call at all, and the next \<^verbatim>\<open>execute_python\<close> fails on
  \<^verbatim>\<open>state.kc\<close>, which is still \<^verbatim>\<open>None\<close>. When the handshake raises, both \<^verbatim>\<open>km\<close> and \<^verbatim>\<open>kc\<close>
  are kept. The script behaves the same way.
\<close>

theorem ensure_started_failed_spawn_keeps_km:
  "ensure_started (ex_start\<lparr>start_kernel_raises := Some (External ''SpawnFailure'')\<rparr>) ex_fresh
     = (Inl (External ''SpawnFailure''), ex_fresh\<lparr>km := Some 2\<rparr>, [StartKernel 2])
   \<and> ensure_started ex_start (ex_fresh\<lparr>km := Some 2\<rparr>) = (Inr (), ex_fresh\<lparr>km := Some 2\<rparr>, [])
   \<and> execute_python (ex_env []) ''1 + 1'' (ex_fresh\<lparr>km := Some 2\<rparr>)
     = Some (Inl (AttributeError ''execute''), ex_fresh\<lparr>km := Some 2\<rparr>, [], [])
   \<and> ensure_started (ex_start\<lparr>wait_for_ready_raises := Some (External ''HandshakeFailure'')\<rparr>) ex_fresh
     = (Inl (External ''HandshakeFailure''), ex_fresh\<lparr>km := Some 2, kc := Some 2\<rparr>,
        [StartKernel 2, StartChannels 2, WaitForReady 2])
   \<and> ensure_started_script (ex_start\<lparr>start_kernel_raises := Some (External ''SpawnFailure'')\<rparr>) ex_fresh
     = (Inl (External ''SpawnFailure''), ex_fresh\<lparr>km := Some 2\<rparr>, [StartKernel 2])
   \<and> ensure_started_script ex_start (ex_fresh\<lparr>km := Some 2\<rparr>) = (Inr (), ex_fresh\<lparr>km := Some 2\<rparr>, [])"
  by (simp add: ensure_started_def ensure_started_script_def execute_python_def ex_start_def
      ex_fresh_def ex_env_def KernelState_init_def)

text \<open>
  Claim C3, as stated, does not hold: when \<^verbatim>\<open>shutdown_kernel\<close> raises, \<^verbatim>\<open>restart_kernel\<close>
  raises as well, the old worker stays in the session, and nothing is started.
\<close>

theorem restart_kernel_shutdown_failure_propagates:
  "restart_kernel \<lparr>shutdown_kernel_raises = Some (External ''ShutdownFailure''),
                   restart_start = ex_start\<rparr> ex_up
     = (Inl (External ''ShutdownFailure''), ex_up, [ShutdownKernel 1])
   \<and> restart_kernel_script \<lparr>shutdown_kernel_raises = Some (External ''ShutdownFailure''),
                   restart_start = ex_start\<rparr> ex_up
     = (Inl (External ''ShutdownFailure''), ex_up, [ShutdownKernel 1])"
  by (simp add: restart_kernel_def restart_kernel_script_def ex_up_def)

text \<open>
  Claim C3, amended. \<^verbatim>\<open>restart_kernel\<close> shuts the old worker down, if there is one, and
  then calls \<^verbatim>\<open>ensure_started\<close>. When there is no old worker or its shutdown succeeds,
  and the start succeeds, the session holds the new manager and client, with the
  newly drawn kernel id and start time, and the answer names that id. When the
  shutdown of the old worker raises, the exception leaves \<^verbatim>\<open>restart_kernel\<close>, the
  session is unchanged and no start is attempted.
\<close>

theorem restart_kernel_fresh_start:
  assumes "restart_start env = st"
      and "start_kernel_raises st = None" and "wait_for_ready_raises st = None"
  shows "(km s = None \<longrightarrow>
            restart_kernel env s =
              (Inr (''Kernel restarted. New ID: '' @ new_uuid st),
               s\<lparr>km := Some (new_km st), kc := Some (new_km st),
                 kernel_id := new_uuid st, start_time := now st\<rparr>,
               [StartKernel (new_km st), StartChannels (new_km st), WaitForReady (new_km st),
                Execute (new_km st) IMPORTS, Execute (new_km st) ''%matplotlib inline''])
          \<and> restart_kernel_script env s =
              (Inr (''Kernel restarted. New ID: '' @ new_uuid st),
               s\<lparr>km := Some (new_km st), kc := Some (new_km st),
                 kernel_id := new_uuid st, start_time := now st\<rparr>,
               [StartKernel (new_km st), StartChannels (new_km st), WaitForReady (new_km st)]))
       \<and> (km s = Some k \<and> shutdown_kernel_raises env = None \<longrightarrow>
            restart_kernel env s =
              (Inr (''Kernel restarted. New ID: '' @ new_uuid st),
               s\<lparr>km := Some (new_km st), kc := Some (new_km st),
                 kernel_id := new_uuid st, start_time := now st\<rparr>,
               [ShutdownKernel k,
                StartKernel (new_km st), StartChannels (new_km st), WaitForReady (new_km st),
                Execute (new_km st) IMPORTS, Execute (new_km st) ''%matplotlib inline''])
          \<and> restart_kernel_script env s =
              (Inr (''Kernel restarted. New ID: '' @ new_uuid st),
               s\<lparr>km := Some (new_km st), kc := Some (new_km st),
                 kernel_id := new_uuid st, start_time := now st\<rparr>,
               [ShutdownKernel k,
                StartKernel (new_km st), StartChannels (new_km st), WaitForReady (new_km st)]))
       \<and> (km s = Some k \<and> shutdown_kernel_raises env = Some e \<longrightarrow>
            restart_kernel env s = (Inl e, s, [ShutdownKernel k])
          \<and> restart_kernel_script env s = (Inl e, s, [ShutdownKernel k]))"
  using assms
  by (simp add: restart_kernel_def restart_kernel_script_def ensure_started_def
      ensure_started_script_def restart_message_def Let_def)

text \<open>The theorem at a running session, once with a shutdown that succeeds and once with one that raises.\<close>

theorem restart_kernel_fresh_start_witness:
  "restart_kernel \<lparr>shutdown_kernel_raises = None, restart_start = ex_start\<rparr> ex_up
     = (Inr ''Kernel restarted. New ID: a3bb189e-8bf9-3888-9912-ace4e6543002'',
        ex_up\<lparr>km := Some 2, kc := Some 2,
          kernel_id := ''a3bb189e-8bf9-3888-9912-ace4e6543002'', start_time := 100\<rparr>,
        [ShutdownKernel 1, StartKernel 2, StartChannels 2, WaitForReady 2,
         Execute 2 IMPORTS, Execute 2 ''%matplotlib inline''])
   \<and> restart_kernel \<lparr>shutdown_kernel_raises = Some (External ''ShutdownFailure''),
                     restart_start = ex_start\<rparr> ex_up
     = (Inl (External ''ShutdownFailure''), ex_up, [ShutdownKernel 1])"
proof -
  have st: "start_kernel_raises ex_start = None" "wait_for_ready_raises ex_start = None"
    by (simp_all add: ex_start_def)
  have up: "km ex_up = Some 1"
    by (simp add: ex_up_def)
  have ok: "restart_start \<lparr>shutdown_kernel_raises = None, restart_start = ex_start\<rparr> = ex_start"
    by simp
  have bad: "restart_start \<lparr>shutdown_kernel_raises = Some (External ''ShutdownFailure''),
                           restart_start = ex_start\<rparr> = ex_start"
    by simp
  from restart_kernel_fresh_start [OF ok st, of ex_up 1]
       restart_kernel_fresh_start [OF bad st, of ex_up 1 "External ''ShutdownFailure''"] up
  show ?thesis
    by (simp add: ex_start_def)
qed

section \<open>Claims about the receive loop\<close>

text \<open>
  Claim C4, as stated, does not hold: a receive that fails with an exception other
  than \<^verbatim>\<open>asyncio.TimeoutError\<close> (here a closed channel) is not turned into an error
  entry; the exception leaves \<^verbatim>\<open>execute_python\<close> and no list of parts is returned.
\<close>

theorem receive_failure_propagates_example:
  "execute_python (ex_env [(1, Broken (External ''ChannelClosed''))]) ''1 + 1'' ex_up
     = Some (Inl (External ''ChannelClosed''), ex_up, [], [Execute 1 ''1 + 1''])
   \<and> execute_python_script (ex_env [(1, Broken (External ''ChannelClosed''))]) ''1 + 1'' ex_up
     = Some (Inl (External ''ChannelClosed''), ex_up, [], [Execute 1 ''1 + 1''])"
proof -
  have up: "km ex_up = Some 1" "kc ex_up = Some 1"
    by (simp_all add: ex_up_def)
  show ?thesis
    by (simp add: execute_python_up [OF up] execute_python_script_up [OF up] ex_env_def
        receive_loop_broken)
qed

text \<open>
  Claim C4, amended. With the worker started: a receive that fails with an exception
  other than \<^verbatim>\<open>asyncio.TimeoutError\<close> ends the loop with that exception, whatever has
  been collected, and an exception that ends the loop leaves \<^verbatim>\<open>execute_python\<close>
  (the session is unchanged). Only a receive that times out is turned into an entry
  of the error list that ends the aggregation.
\<close>

theorem only_timeout_is_caught:
  assumes "km s = Some k" and "kc s = Some c"
  shows "(d < 30 \<and> e \<noteq> TimeoutError \<longrightarrow>
            receive_loop h mid ((d, Broken e) # ch) a = Some (Inl e, ch))
       \<and> (receive_loop handle_msg (sent_msg_id env) (iopub env) acc_init = Some (Inl e, ch') \<longrightarrow>
            execute_python env code s = Some (Inl e, s, ch', [Execute c code]))
       \<and> (receive_loop handle_msg_script (sent_msg_id env) (iopub env) acc_init = Some (Inl e, ch') \<longrightarrow>
            execute_python_script env code s = Some (Inl e, s, ch', [Execute c code]))
       \<and> (30 \<le> d \<longrightarrow>
            receive_loop h mid ((d, x) # ch) a =
              Some (Inr (a\<lparr>errors := errors a @ [timeout_notice]\<rparr>), (d - 30, x) # ch))"
  using assms
  by (simp add: receive_loop_broken receive_loop_timeout execute_python_up execute_python_script_up)

text \<open>The theorem at a closed channel, arriving within the budget and after it.\<close>

theorem only_timeout_is_caught_witness:
  "receive_loop handle_msg ''req-2'' [(1, Broken (External ''ChannelClosed''))] acc_init
     = Some (Inl (External ''ChannelClosed''), [])
   \<and> execute_python (ex_env [(1, Broken (External ''ChannelClosed''))]) ''1 + 1'' ex_up
     = Some (Inl (External ''ChannelClosed''), ex_up, [], [Execute 1 ''1 + 1''])
   \<and> receive_loop handle_msg ''req-2'' [(45, Broken (External ''ChannelClosed''))] acc_init
     = Some (Inr (acc_init\<lparr>errors := [timeout_notice]\<rparr>), [(15, Broken (External ''ChannelClosed''))])"
proof -
  have up: "km ex_up = Some 1" "kc ex_up = Some 1"
    by (simp_all add: ex_up_def)
  note t = only_timeout_is_caught [OF up, where h = handle_msg and mid = "''req-2''"
      and e = "External ''ChannelClosed''" and a = acc_init and ch = "[]"
      and x = "Broken (External ''ChannelClosed'')"
      and env = "ex_env [(1, Broken (External ''ChannelClosed''))]" and ch' = "[]"
      and code = "''1 + 1''"]
  from t [where d = 1] t [where d = 45] show ?thesis
    by (simp add: ex_env_def acc_init_def)
qed

text \<open>
  Claim C5, as stated, does not hold in one point: aggregation does not end with a
  status \<^verbatim>\<open>timed_out\<close>. The loop returns the three lists and nothing else, and the
  parts are built from them alone. A request that times out returns the same lists
  and the same parts as a request whose worker reports an error with the notice as
  its one traceback line and then becomes idle, in \<^verbatim>\<open>server.py\<close> and in the script.
\<close>

theorem timed_out_result_equals_errored_result:
  "execute_python (ex_env [(45, Message (ex_status ''req-2'' ''idle''))]) ''time.sleep(60)'' ex_up
     = Some (Inr [TextContent ''**Kernel Info:** ID: `7c9e6679...` | Uptime: `15.0s`'',
                  TextContent ''**Executed:**\<newline>```python\<newline>time.sleep(60)\<newline>```'',
                  TextContent ''**Errors:**\<newline>```python\<newline>Execution timed out after 30 seconds\<newline>```'',
                  EmbeddedResource (TextResource ''ui://pykernel_mcp/result-uuid'' ''text/html'' ''<html>'')],
             ex_up, [(15, Message (ex_status ''req-2'' ''idle''))], [Execute 1 ''time.sleep(60)''])
   \<and> execute_python
       (ex_env [(1, Message (ex_error ''req-2'' [''Execution timed out after 30 seconds''])),
                (1, Message (ex_status ''req-2'' ''idle''))]) ''time.sleep(60)'' ex_up
     = Some (Inr [TextContent ''**Kernel Info:** ID: `7c9e6679...` | Uptime: `15.0s`'',
                  TextContent ''**Executed:**\<newline>```python\<newline>time.sleep(60)\<newline>```'',
                  TextContent ''**Errors:**\<newline>```python\<newline>Execution timed out after 30 seconds\<newline>```'',
                  EmbeddedResource (TextResource ''ui://pykernel_mcp/result-uuid'' ''text/html'' ''<html>'')],
             ex_up, [], [Execute 1 ''time.sleep(60)''])
   \<and> receive_loop handle_msg ''req-2'' [(45, Message (ex_status ''req-2'' ''idle''))] acc_init
     = Some (Inr \<lparr>outputs = [], errors = [''Execution timed out after 30 seconds''], images = []\<rparr>,
             [(15, Message (ex_status ''req-2'' ''idle''))])
   \<and> receive_loop handle_msg ''req-2''
       [(1, Message (ex_error ''req-2'' [''Execution timed out after 30 seconds''])),
        (1, Message (ex_status ''req-2'' ''idle''))] acc_init
     = Some (Inr \<lparr>outputs = [], errors = [''Execution timed out after 30 seconds''], images = []\<rparr>, [])
   \<and> receive_loop handle_msg_script ''req-2'' [(45, Message (ex_status ''req-2'' ''idle''))] acc_init
     = Some (Inr \<lparr>outputs = [], errors = [''Execution timed out after 30 seconds''], images = []\<rparr>,
             [(15, Message (ex_status ''req-2'' ''idle''))])
   \<and> receive_loop handle_msg_script ''req-2''
       [(1, Message (ex_error ''req-2'' [''Execution timed out after 30 seconds''])),
        (1, Message (ex_status ''req-2'' ''idle''))] acc_init
     = Some (Inr \<lparr>outputs = [], errors = [''Execution timed out after 30 seconds''], images = []\<rparr>, [])"
proof -
  have up: "km ex_up = Some 1" "kc ex_up = Some 1"
    by (simp_all add: ex_up_def)
  show ?thesis
    unfolding execute_python_up [OF up]
    by (simp add: ex_env_def receive_loop_message receive_loop_timeout handle_msg_def
        handle_msg_script_def ex_status_def ex_error_def ex_content_def acc_init_def
        timeout_notice_def result_parts_def kernel_info_def executed_text_def errors_part_def
        get_uptime_def ex_up_def)
qed

text \<open>
  Claim C5, amended. Each receive has its own budget of 30 seconds. After any number
  of arrivals that each came within 30 seconds and that the loop passes over
  (whatever their delays add up to), a receive that takes 30 seconds or more ends
  the aggregation through the timeout handler: the fixed notice
  \<^verbatim>\<open>Execution timed out after 30 seconds\<close> is appended to the error list and appears
  in the returned parts, which is the only way the timeout is reported. The session
  is returned unchanged (the worker and its client are kept and no shutdown is
  requested), and the late arrival stays pending on the channel. The last conjunct
  is the same step from any state of the three lists.
\<close>

theorem timeout_is_per_receive:
  assumes "km s = Some k" and "kc s = Some c"
      and "sent_msg_id env = mid" and "iopub env = pre @ (d, x) # rest"
      and "\<forall>(d', x') \<in> set pre. d' < 30 \<and>
             (\<exists>m. x' = Message m \<and> handle_msg mid m acc_init = Inr (Next, acc_init)
                  \<and> handle_msg_script mid m acc_init = Inr (Next, acc_init))"
      and "30 \<le> d"
  shows "execute_python env code s =
           Some (Inr (result_parts env code s (acc_init\<lparr>errors := [timeout_notice]\<rparr>)),
                 s, (d - 30, x) # rest, [Execute c code])
       \<and> TextContent (errors_part [''Execution timed out after 30 seconds''])
           \<in> set (result_parts env code s (acc_init\<lparr>errors := [timeout_notice]\<rparr>))
       \<and> execute_python_script env code s =
           Some (Inr (result_parts_script env code s (acc_init\<lparr>errors := [timeout_notice]\<rparr>)),
                 s, (d - 30, x) # rest, [Execute c code])
       \<and> TextContent (errors_part [''Execution timed out after 30 seconds''])
           \<in> set (result_parts_script env code s (acc_init\<lparr>errors := [timeout_notice]\<rparr>))
       \<and> receive_loop h mid ((d, x) # rest) a =
           Some (Inr (a\<lparr>errors := errors a @ [timeout_notice]\<rparr>), (d - 30, x) # rest)"
proof -
  have skip: "receive_loop handle_msg mid (pre @ (d, x) # rest) acc_init
                = receive_loop handle_msg mid ((d, x) # rest) acc_init"
    by (rule receive_loop_skip) (use assms(5) in fastforce)
  have skip_script: "receive_loop handle_msg_script mid (pre @ (d, x) # rest) acc_init
                = receive_loop handle_msg_script mid ((d, x) # rest) acc_init"
    by (rule receive_loop_skip) (use assms(5) in fastforce)
  have a0: "acc_init\<lparr>errors := errors acc_init @ [timeout_notice]\<rparr>
              = acc_init\<lparr>errors := [timeout_notice]\<rparr>"
    by (simp add: acc_init_def)
  have e1: "execute_python env code s =
           Some (Inr (result_parts env code s (acc_init\<lparr>errors := [timeout_notice]\<rparr>)),
                 s, (d - 30, x) # rest, [Execute c code])"
    using assms(1-4,6) by (simp add: execute_python_up skip receive_loop_timeout a0)
  have e2: "execute_python_script env code s =
           Some (Inr (result_parts_script env code s (acc_init\<lparr>errors := [timeout_notice]\<rparr>)),
                 s, (d - 30, x) # rest, [Execute c code])"
    using assms(1-4,6) by (simp add: execute_python_script_up skip_script receive_loop_timeout a0)
  have p1: "TextContent (errors_part [''Execution timed out after 30 seconds''])
           \<in> set (result_parts env code s (acc_init\<lparr>errors := [timeout_notice]\<rparr>))"
    by (simp add: result_parts_def timeout_notice_def acc_init_def)
  have p2: "TextContent (errors_part [''Execution timed out after 30 seconds''])
           \<in> set (result_parts_script env code s (acc_init\<lparr>errors := [timeout_notice]\<rparr>))"
    by (simp add: result_parts_script_def timeout_notice_def acc_init_def)
  have l: "receive_loop h mid ((d, x) # rest) a =
           Some (Inr (a\<lparr>errors := errors a @ [timeout_notice]\<rparr>), (d - 30, x) # rest)"
    using assms(6) by (simp add: receive_loop_timeout)
  from e1 e2 p1 p2 l show ?thesis by simp
qed

text \<open>
  The theorem at a request whose first two arrivals take 20 seconds each and whose
  idle marker would take 45; a following \<^verbatim>\<open>execute_python\<close> on the same session, with
  the late marker still pending, returns its output.
\<close>

theorem timeout_is_per_receive_witness:
  "execute_python
     (ex_env [(20, Message (ex_status ''req-2'' ''busy'')), (20, Message (ex_stream ''req-1'' ''stale'')),
              (45, Message (ex_status ''req-2'' ''idle''))]) ''time.sleep(60)'' ex_up
     = Some (Inr (result_parts
                    (ex_env [(20, Message (ex_status ''req-2'' ''busy'')),
                             (20, Message (ex_stream ''req-1'' ''stale'')),
                             (45, Message (ex_status ''req-2'' ''idle''))])
                    ''time.sleep(60)'' ex_up (acc_init\<lparr>errors := [timeout_notice]\<rparr>)),
             ex_up, [(15, Message (ex_status ''req-2'' ''idle''))], [Execute 1 ''time.sleep(60)''])
   \<and> execute_python
       ((ex_env [(15, Message (ex_status ''req-2'' ''idle'')), (1, Message (ex_stream ''req-3'' ''ok'')),
                 (1, Message (ex_status ''req-3'' ''idle''))])\<lparr>sent_msg_id := ''req-3''\<rparr>) ''print(1)'' ex_up
     = Some (Inr [TextContent ''**Kernel Info:** ID: `7c9e6679...` | Uptime: `15.0s`'',
                  TextContent ''**Executed:**\<newline>```python\<newline>print(1)\<newline>```'',
                  TextContent ''**Output:**\<newline>```\<newline>ok\<newline>```'',
                  EmbeddedResource (TextResource ''ui://pykernel_mcp/result-uuid'' ''text/html'' ''<html>'')],
             ex_up, [], [Execute 1 ''print(1)''])"
proof -
  have up: "km ex_up = Some 1" "kc ex_up = Some 1"
    by (simp_all add: ex_up_def)
  have pre: "\<forall>(d', x') \<in> set [(20::real, Message (ex_status ''req-2'' ''busy'')),
                                 (20, Message (ex_stream ''req-1'' ''stale''))]. d' < 30 \<and>
             (\<exists>m. x' = Message m \<and> handle_msg ''req-2'' m acc_init = Inr (Next, acc_init)
                  \<and> handle_msg_script ''req-2'' m acc_init = Inr (Next, acc_init))"
    by (simp add: handle_msg_def handle_msg_script_def ex_status_def ex_stream_def ex_content_def)
  have first: "execute_python
     (ex_env [(20, Message (ex_status ''req-2'' ''busy'')), (20, Message (ex_stream ''req-1'' ''stale'')),
              (45, Message (ex_status ''req-2'' ''idle''))]) ''time.sleep(60)'' ex_up
     = Some (Inr (result_parts
                    (ex_env [(20, Message (ex_status ''req-2'' ''busy'')),
                             (20, Message (ex_stream ''req-1'' ''stale'')),
                             (45, Message (ex_status ''req-2'' ''idle''))])
                    ''time.sleep(60)'' ex_up (acc_init\<lparr>errors := [timeout_notice]\<rparr>)),
             ex_up, [(15, Message (ex_status ''req-2'' ''idle''))], [Execute 1 ''time.sleep(60)''])"
    using timeout_is_per_receive [OF up _ _ pre, where d = 45
        and x = "Message (ex_status ''req-2'' ''idle'')" and rest = "[]"
        and env = "ex_env [(20, Message (ex_status ''req-2'' ''busy'')),
                           (20, Message (ex_stream ''req-1'' ''stale'')),
                           (45, Message (ex_status ''req-2'' ''idle''))]"
        and code = "''time.sleep(60)''"]
    by (simp add: ex_env_def)
  have second: "execute_python
       ((ex_env [(15, Message (ex_status ''req-2'' ''idle'')), (1, Message (ex_stream ''req-3'' ''ok'')),
                 (1, Message (ex_status ''req-3'' ''idle''))])\<lparr>sent_msg_id := ''req-3''\<rparr>) ''print(1)'' ex_up
     = Some (Inr [TextContent ''**Kernel Info:** ID: `7c9e6679...` | Uptime: `15.0s`'',
                  TextContent ''**Executed:**\<newline>```python\<newline>print(1)\<newline>```'',
                  TextContent ''**Output:**\<newline>```\<newline>ok\<newline>```'',
                  EmbeddedResource (TextResource ''ui://pykernel_mcp/result-uuid'' ''text/html'' ''<html>'')],
             ex_up, [], [Execute 1 ''print(1)''])"
    unfolding execute_python_up [OF up]
    by (simp add: ex_env_def receive_loop_message handle_msg_def
        ex_status_def ex_stream_def ex_content_def acc_init_def result_parts_def kernel_info_def
        executed_text_def output_part_def get_uptime_def ex_up_def enumerate_eq_zip)
  from first second show ?thesis by simp
qed

text \<open>
  Claim C6. Messages whose parent request id differs from the current one are
  passed over: the loop goes on to the next receive and none of the three lists
  changes. The loop ends by its \<^verbatim>\<open>break\<close> exactly on a \<^verbatim>\<open>status\<close> message with
  execution state \<^verbatim>\<open>idle\<close> tagged to the current request, and it then returns the
  lists as they are.
\<close>

theorem foreign_discarded_idle_terminates:
  assumes "\<forall>(d', x') \<in> set pre. d' < 30 \<and> (\<exists>m'. x' = Message m' \<and> parent_msg_id m' \<noteq> Some mid)"
      and "d < 30"
      and "parent_msg_id m = Some mid" and "msg_type m = ''status''"
      and "c_execution_state (content m) = Some ''idle''"
  shows "receive_loop handle_msg mid (pre @ (d, Message m) # rest) a = Some (Inr a, rest)
       \<and> receive_loop handle_msg_script mid (pre @ (d, Message m) # rest) a = Some (Inr a, rest)
       \<and> (parent_msg_id n \<noteq> Some mid \<longrightarrow>
            handle_msg mid n a = Inr (Next, a) \<and> handle_msg_script mid n a = Inr (Next, a))
       \<and> ((\<exists>a'. handle_msg mid n a = Inr (Break, a')) \<longleftrightarrow>
            parent_msg_id n = Some mid \<and> msg_type n = ''status''
            \<and> c_execution_state (content n) = Some ''idle'')
       \<and> ((\<exists>a'. handle_msg_script mid n a = Inr (Break, a')) \<longleftrightarrow>
            parent_msg_id n = Some mid \<and> msg_type n = ''status''
            \<and> c_execution_state (content n) = Some ''idle'')"
proof -
  have f1: "\<forall>(d', x') \<in> set pre. d' < 30 \<and> (\<exists>m'. x' = Message m' \<and> handle_msg mid m' a = Inr (Next, a))"
    using assms(1) by (fastforce simp: handle_msg_def)
  have f2: "\<forall>(d', x') \<in> set pre. d' < 30 \<and> (\<exists>m'. x' = Message m' \<and> handle_msg_script mid m' a = Inr (Next, a))"
    using assms(1) by (fastforce simp: handle_msg_script_def)
  have i1: "handle_msg mid m a = Inr (Break, a)"
    using assms(3-5) by (simp add: handle_msg_def)
  have i2: "handle_msg_script mid m a = Inr (Break, a)"
    using assms(3-5) by (simp add: handle_msg_script_def)
  have l1: "receive_loop handle_msg mid (pre @ (d, Message m) # rest) a = Some (Inr a, rest)"
    using assms(2) by (simp add: receive_loop_skip [of pre handle_msg mid a, OF f1] receive_loop_message i1)
  have l2: "receive_loop handle_msg_script mid (pre @ (d, Message m) # rest) a = Some (Inr a, rest)"
    using assms(2) by (simp add: receive_loop_skip [of pre handle_msg_script mid a, OF f2] receive_loop_message i2)
  have s: "parent_msg_id n \<noteq> Some mid \<longrightarrow>
            handle_msg mid n a = Inr (Next, a) \<and> handle_msg_script mid n a = Inr (Next, a)"
    by (simp add: handle_msg_def handle_msg_script_def)
  have b1: "(\<exists>a'. handle_msg mid n a = Inr (Break, a')) \<longleftrightarrow>
            parent_msg_id n = Some mid \<and> msg_type n = ''status''
            \<and> c_execution_state (content n) = Some ''idle''"
    by (auto simp: handle_msg_def Let_def split: option.splits if_splits)
  have b2: "(\<exists>a'. handle_msg_script mid n a = Inr (Break, a')) \<longleftrightarrow>
            parent_msg_id n = Some mid \<and> msg_type n = ''status''
            \<and> c_execution_state (content n) = Some ''idle''"
    by (auto simp: handle_msg_script_def Let_def split: option.splits if_splits)
  from l1 l2 s b1 b2 show ?thesis by blast
qed

text \<open>The theorem at a request preceded by a stale stream message and a stale idle marker.\<close>

theorem foreign_discarded_idle_terminates_witness:
  "receive_loop handle_msg ''req-2''
     [(5, Message (ex_stream ''req-1'' ''stale'')), (29, Message (ex_status ''req-1'' ''idle'')),
      (1, Message (ex_status ''req-2'' ''idle'')), (2, Message (ex_stream ''req-2'' ''late''))] acc_init
     = Some (Inr acc_init, [(2, Message (ex_stream ''req-2'' ''late''))])
   \<and> handle_msg ''req-2'' (ex_stream ''req-1'' ''stale'') acc_init = Inr (Next, acc_init)
   \<and> (\<exists>a'. handle_msg ''req-2'' (ex_status ''req-2'' ''idle'') acc_init = Inr (Break, a'))"
proof -
  have pre: "\<forall>(d', x') \<in> set [(5::real, Message (ex_stream ''req-1'' ''stale'')),
                                 (29, Message (ex_status ''req-1'' ''idle''))].
               d' < 30 \<and> (\<exists>m'. x' = Message m' \<and> parent_msg_id m' \<noteq> Some ''req-2'')"
    by (simp add: ex_stream_def ex_status_def)
  have d: "(1::real) < 30" by simp
  have m: "parent_msg_id (ex_status ''req-2'' ''idle'') = Some ''req-2''"
    "msg_type (ex_status ''req-2'' ''idle'') = ''status''"
    "c_execution_state (content (ex_status ''req-2'' ''idle'')) = Some ''idle''"
    by (simp_all add: ex_status_def)
  note t = foreign_discarded_idle_terminates [OF pre d m,
      where rest = "[(2, Message (ex_stream ''req-2'' ''late''))]" and a = acc_init]
  have n: "parent_msg_id (ex_stream ''req-1'' ''stale'') \<noteq> Some ''req-2''"
    by (simp add: ex_stream_def)
  from t [where n = "ex_stream ''req-1'' ''stale''"] t [where n = "ex_status ''req-2'' ''idle''"] n m
  show ?thesis by simp
qed








end
